theory Spec2Isabelle
  imports Main "HOL-Library.Word"
begin

unbundle bit_operations_syntax

section \<open>Bytes and the SHA-256 digest\<close>

text \<open>
  Python's \<open>bytes\<close> are lists of 8-bit words. The two hashing functions of the repository
  call \<open>hashlib.sha256(...).digest()\<close>; the library function is modelled by the algorithm
  of FIPS 180-4 (padding, message schedule, 64 rounds per 64-byte block) on 32-bit words,
  so that the digest can be computed and its length is a theorem, not an assumption.
\<close>

type_synonym byte = "8 word"
type_synonym bytes = "byte list"
type_synonym w32 = "32 word"
type_synonym hstate = "w32 \<times> w32 \<times> w32 \<times> w32 \<times> w32 \<times> w32 \<times> w32 \<times> w32"

definition rotr :: "nat \<Rightarrow> w32 \<Rightarrow> w32" where
  "rotr n x = drop_bit n x OR push_bit (32 - n) x"

definition Ch :: "w32 \<Rightarrow> w32 \<Rightarrow> w32 \<Rightarrow> w32" where
  "Ch x y z = (x AND y) XOR (NOT x AND z)"

definition Maj :: "w32 \<Rightarrow> w32 \<Rightarrow> w32 \<Rightarrow> w32" where
  "Maj x y z = (x AND y) XOR (x AND z) XOR (y AND z)"

definition big_sigma0 :: "w32 \<Rightarrow> w32" where
  "big_sigma0 x = rotr 2 x XOR rotr 13 x XOR rotr 22 x"

definition big_sigma1 :: "w32 \<Rightarrow> w32" where
  "big_sigma1 x = rotr 6 x XOR rotr 11 x XOR rotr 25 x"

definition small_sigma0 :: "w32 \<Rightarrow> w32" where
  "small_sigma0 x = rotr 7 x XOR rotr 18 x XOR drop_bit 3 x"

definition small_sigma1 :: "w32 \<Rightarrow> w32" where
  "small_sigma1 x = rotr 17 x XOR rotr 19 x XOR drop_bit 10 x"

definition sha256_K :: "w32 list" where
  "sha256_K =
    [0x428A2F98, 0x71374491, 0xB5C0FBCF, 0xE9B5DBA5, 0x3956C25B, 0x59F111F1, 0x923F82A4, 0xAB1C5ED5,
     0xD807AA98, 0x12835B01, 0x243185BE, 0x550C7DC3, 0x72BE5D74, 0x80DEB1FE, 0x9BDC06A7, 0xC19BF174,
     0xE49B69C1, 0xEFBE4786, 0x0FC19DC6, 0x240CA1CC, 0x2DE92C6F, 0x4A7484AA, 0x5CB0A9DC, 0x76F988DA,
     0x983E5152, 0xA831C66D, 0xB00327C8, 0xBF597FC7, 0xC6E00BF3, 0xD5A79147, 0x06CA6351, 0x14292967,
     0x27B70A85, 0x2E1B2138, 0x4D2C6DFC, 0x53380D13, 0x650A7354, 0x766A0ABB, 0x81C2C92E, 0x92722C85,
     0xA2BFE8A1, 0xA81A664B, 0xC24B8B70, 0xC76C51A3, 0xD192E819, 0xD6990624, 0xF40E3585, 0x106AA070,
     0x19A4C116, 0x1E376C08, 0x2748774C, 0x34B0BCB5, 0x391C0CB3, 0x4ED8AA4A, 0x5B9CCA4F, 0x682E6FF3,
     0x748F82EE, 0x78A5636F, 0x84C87814, 0x8CC70208, 0x90BEFFFA, 0xA4506CEB, 0xBEF9A3F7, 0xC67178F2]"

definition sha256_H0 :: hstate where
  "sha256_H0 =
    (0x6A09E667, 0xBB67AE85, 0x3C6EF372, 0xA54FF53A, 0x510E527F, 0x9B05688C, 0x1F83D9AB, 0x5BE0CD19)"

definition be32 :: "byte \<Rightarrow> byte \<Rightarrow> byte \<Rightarrow> byte \<Rightarrow> w32" where
  "be32 b0 b1 b2 b3 =
     push_bit 24 (ucast b0) OR push_bit 16 (ucast b1) OR push_bit 8 (ucast b2) OR ucast b3"

fun words_of :: "bytes \<Rightarrow> w32 list" where
  "words_of (b0 # b1 # b2 # b3 # rest) = be32 b0 b1 b2 b3 # words_of rest"
| "words_of _ = []"

definition bytes_of_w32 :: "w32 \<Rightarrow> bytes" where
  "bytes_of_w32 w = [ucast (drop_bit 24 w), ucast (drop_bit 16 w), ucast (drop_bit 8 w), ucast w]"

definition bytes_of_len :: "nat \<Rightarrow> bytes" where
  "bytes_of_len n =
     (let w = (word_of_nat n :: 64 word)
      in map (\<lambda>i. ucast (drop_bit (8 * i) w)) [7, 6, 5, 4, 3, 2, 1, 0])"

definition sha256_pad :: "bytes \<Rightarrow> bytes" where
  "sha256_pad m =
     m @ [0x80] @ replicate ((119 - length m mod 64) mod 64) 0 @ bytes_of_len (8 * length m)"

fun schedule :: "nat \<Rightarrow> w32 list \<Rightarrow> w32 list" where
  "schedule 0 ws = ws"
| "schedule (Suc n) ws =
     (let t = length ws
      in schedule n (ws @ [small_sigma1 (ws ! (t - 2)) + ws ! (t - 7)
                           + small_sigma0 (ws ! (t - 15)) + ws ! (t - 16)]))"

fun sha256_round :: "hstate \<Rightarrow> w32 \<times> w32 \<Rightarrow> hstate" where
  "sha256_round (a, b, c, d, e, f, g, h) (k, w) =
     (let t1 = h + big_sigma1 e + Ch e f g + k + w;
          t2 = big_sigma0 a + Maj a b c
      in (t1 + t2, a, b, c, d + t1, e, f, g))"

fun add_state :: "hstate \<Rightarrow> hstate \<Rightarrow> hstate" where
  "add_state (a, b, c, d, e, f, g, h) (a', b', c', d', e', f', g', h') =
     (a + a', b + b', c + c', d + d', e + e', f + f', g + g', h + h')"

definition compress :: "hstate \<Rightarrow> bytes \<Rightarrow> hstate" where
  "compress H block =
     add_state H (foldl sha256_round H (zip sha256_K (schedule 48 (words_of block))))"

fun sha256_blocks :: "nat \<Rightarrow> hstate \<Rightarrow> bytes \<Rightarrow> hstate" where
  "sha256_blocks 0 H bs = H"
| "sha256_blocks (Suc n) H bs = sha256_blocks n (compress H (take 64 bs)) (drop 64 bs)"

fun digest_of :: "hstate \<Rightarrow> bytes" where
  "digest_of (a, b, c, d, e, f, g, h) =
     concat (map bytes_of_w32 [a, b, c, d, e, f, g, h])"

definition sha256 :: "bytes \<Rightarrow> bytes" where
  "sha256 m = (let p = sha256_pad m in digest_of (sha256_blocks (length p div 64) sha256_H0 p))"


section \<open>Off-chain TEE module (\<open>oracle/offchain/tee/__init__.py\<close>)\<close>

text \<open>
  The module's only effect besides its return values is \<open>logger.warning\<close>. Every function
  is modelled as returning its value together with the warnings it logs, in order.
\<close>

type_synonym warnings = "string list"

datatype TeePlatform = AMD_SEV_SNP | INTEL_TDX | UNKNOWN

record AttestationReport =
  ar_platform :: TeePlatform
  ar_report_data :: bytes
  ar_measurement :: bytes
  ar_report_id :: bytes
  ar_platform_version :: int
  ar_tcb_version :: int

text \<open>The class \<open>SevSnpAttester\<close>: its only attribute is \<open>_available\<close>.\<close>

record SevSnpAttester =
  available :: bool

definition SevSnpAttester_init :: "SevSnpAttester \<times> warnings" where
  "SevSnpAttester_init =
     (\<lparr>available = False\<rparr>, [''SevSnpAttester: NOT IMPLEMENTED - attestation unavailable''])"

definition is_available :: "SevSnpAttester \<Rightarrow> bool" where
  "is_available self = available self"

definition get_report :: "SevSnpAttester \<Rightarrow> bytes \<Rightarrow> AttestationReport option \<times> warnings" where
  "get_report self user_data = (None, [''get_report: NOT IMPLEMENTED''])"

definition get_measurement :: "SevSnpAttester \<Rightarrow> bytes option \<times> warnings" where
  "get_measurement self = (None, [''get_measurement: NOT IMPLEMENTED''])"

definition detect_platform :: "TeePlatform \<times> warnings" where
  "detect_platform = (UNKNOWN, [''detect_platform: NOT IMPLEMENTED - returning UNKNOWN''])"

definition hash_signal_data :: "bytes \<Rightarrow> bytes \<Rightarrow> bytes" where
  "hash_signal_data market_context signal_assessment =
     (let combined = market_context @ signal_assessment in sha256 combined)"

definition get_attester :: "SevSnpAttester option \<times> warnings" where
  "get_attester =
     (let (platform, w1) = detect_platform
      in if platform = AMD_SEV_SNP then
           (let (a, w2) = SevSnpAttester_init in (Some a, w1 @ w2))
         else if platform = INTEL_TDX then
           (None, w1 @ [''Intel TDX not yet supported''])
         else
           (None, w1 @ [''No TEE platform detected'']))"

section \<open>Receipt builder of the integration tests (\<open>TeeReceiptBuilder\<close>)\<close>

text \<open>
  \<open>_compute_message\<close> and \<open>_compute_report_data\<close> of
  \<open>tests/integration/test_signal_oracle.py\<close> (an identifier cannot start with an
  underscore here). \<open>bytes(provider)\<close> is the 32-byte public key of the provider; the
  functions themselves accept byte strings of any length.
\<close>

definition compute_message :: "bytes \<Rightarrow> bytes \<Rightarrow> bytes" where
  "compute_message signal_id provider = sha256 (signal_id @ provider)"

definition compute_report_data :: "bytes \<Rightarrow> bytes \<Rightarrow> bytes" where
  "compute_report_data signal_id provider =
     (let h = sha256 (signal_id @ provider) in h @ replicate 32 0)"


section \<open>Test data builders of the integration tests\<close>

text \<open>
  The dataclasses \<open>MarketContextBuilder\<close>, \<open>SignalAssessmentBuilder\<close> and
  \<open>TeeReceiptBuilder\<close> with their defaults, and the records their \<open>build\<close> methods
  return (Python dicts with fixed keys). Fields of a builder carry a prefix, since a
  builder and the dict it builds use the same names. \<open>int(time.time())\<close> is the
  argument \<open>now\<close>; the Ed25519 key pair of \<open>solders\<close> is a record of two functions.
\<close>

datatype Direction = Long | Short | Neutral

record MarketContext =
  timestamp :: int
  captured_at_slot :: int
  price_usd :: int
  volume_24h_usd :: int
  market_cap_usd :: int
  price_change_24h_bps :: int
  spread_bps :: int
  depth_2pct_usd :: int
  source_count :: int
  source_bitmap :: int
  asset_symbol :: bytes
  mc_reserved :: bytes

record SignalAssessment =
  direction :: Direction
  strength :: int
  confidence :: int
  time_horizon_slots :: int
  valid_until_slot :: int
  generated_at_slot :: int
  risk_score :: int
  suggested_size_bps :: int
  model_version :: int
  model_params_hash :: bytes
  sa_reserved :: bytes

record TeeReceipt =
  mr_enclave :: bytes
  mr_signer :: bytes
  enclave_signature :: bytes
  enclave_pubkey :: bytes
  report_data :: bytes
  attestation_timestamp :: int
  platform :: TeePlatform
  svn :: int
  tr_reserved :: bytes

record MarketContextBuilder =
  mcb_timestamp :: int
  mcb_captured_at_slot :: int
  mcb_price_usd :: int
  mcb_volume_24h_usd :: int
  mcb_market_cap_usd :: int
  mcb_price_change_24h_bps :: int
  mcb_spread_bps :: int
  mcb_depth_2pct_usd :: int
  mcb_source_count :: int
  mcb_source_bitmap :: int
  mcb_asset_symbol :: bytes

definition MarketContextBuilder_new :: MarketContextBuilder where
  "MarketContextBuilder_new =
     \<lparr>mcb_timestamp = 0, mcb_captured_at_slot = 0, mcb_price_usd = 5000000000000,
      mcb_volume_24h_usd = 1000000000000, mcb_market_cap_usd = 1000000000000000,
      mcb_price_change_24h_bps = 250, mcb_spread_bps = 10, mcb_depth_2pct_usd = 10000000000000,
      mcb_source_count = 3, mcb_source_bitmap = 7,
      mcb_asset_symbol = [0x42, 0x54, 0x43, 0, 0, 0, 0, 0]\<rparr>"

definition with_slot :: "int \<Rightarrow> MarketContextBuilder \<Rightarrow> int \<Rightarrow> MarketContextBuilder" where
  "with_slot now self slot = self\<lparr>mcb_captured_at_slot := slot, mcb_timestamp := now\<rparr>"

definition build_market_context :: "MarketContextBuilder \<Rightarrow> MarketContext" where
  "build_market_context self =
     \<lparr>timestamp = mcb_timestamp self, captured_at_slot = mcb_captured_at_slot self,
      price_usd = mcb_price_usd self, volume_24h_usd = mcb_volume_24h_usd self,
      market_cap_usd = mcb_market_cap_usd self,
      price_change_24h_bps = mcb_price_change_24h_bps self, spread_bps = mcb_spread_bps self,
      depth_2pct_usd = mcb_depth_2pct_usd self, source_count = mcb_source_count self,
      source_bitmap = mcb_source_bitmap self, asset_symbol = mcb_asset_symbol self,
      mc_reserved = replicate 32 0\<rparr>"

record SignalAssessmentBuilder =
  sab_direction :: int
  sab_strength :: int
  sab_confidence :: int
  sab_time_horizon_slots :: int
  sab_valid_until_slot :: int
  sab_generated_at_slot :: int
  sab_risk_score :: int
  sab_suggested_size_bps :: int
  sab_model_version :: int
  sab_model_params_hash :: bytes

definition SignalAssessmentBuilder_new :: SignalAssessmentBuilder where
  "SignalAssessmentBuilder_new =
     \<lparr>sab_direction = 1, sab_strength = 7500, sab_confidence = 8000,
      sab_time_horizon_slots = 100, sab_valid_until_slot = 0, sab_generated_at_slot = 0,
      sab_risk_score = 3000, sab_suggested_size_bps = 500, sab_model_version = 1,
      sab_model_params_hash = replicate 32 0\<rparr>"

definition with_validity :: "SignalAssessmentBuilder \<Rightarrow> int \<Rightarrow> int \<Rightarrow> SignalAssessmentBuilder" where
  "with_validity self current_slot duration =
     self\<lparr>sab_generated_at_slot := current_slot, sab_valid_until_slot := current_slot + duration\<rparr>"


definition with_confidence :: "SignalAssessmentBuilder \<Rightarrow> int \<Rightarrow> SignalAssessmentBuilder" where
  "with_confidence self c = self\<lparr>sab_confidence := c\<rparr>"

definition build_assessment :: "SignalAssessmentBuilder \<Rightarrow> SignalAssessment" where
  "build_assessment self =
     \<lparr>direction = Long, strength = sab_strength self, confidence = sab_confidence self,
      time_horizon_slots = sab_time_horizon_slots self,
      valid_until_slot = sab_valid_until_slot self,
      generated_at_slot = sab_generated_at_slot self, risk_score = sab_risk_score self,
      suggested_size_bps = sab_suggested_size_bps self, model_version = sab_model_version self,
      model_params_hash = sab_model_params_hash self, sa_reserved = replicate 16 0\<rparr>"

record Keypair =
  sign_message :: "bytes \<Rightarrow> bytes"
  pubkey :: bytes

record TeeReceiptBuilder =
  trb_mr_enclave :: bytes
  trb_mr_signer :: bytes
  trb_enclave_keypair :: Keypair
  trb_attestation_timestamp :: int
  trb_platform :: int
  trb_svn :: int

definition TeeReceiptBuilder_new :: "Keypair \<Rightarrow> TeeReceiptBuilder" where
  "TeeReceiptBuilder_new fresh_keypair =
     \<lparr>trb_mr_enclave = replicate 32 0, trb_mr_signer = replicate 32 0,
      trb_enclave_keypair = fresh_keypair, trb_attestation_timestamp = 0,
      trb_platform = 1, trb_svn = 1\<rparr>"

definition with_enclave :: "TeeReceiptBuilder \<Rightarrow> bytes \<Rightarrow> TeeReceiptBuilder" where
  "with_enclave self e = self\<lparr>trb_mr_enclave := e\<rparr>"

definition build_receipt :: "int \<Rightarrow> TeeReceiptBuilder \<Rightarrow> bytes \<Rightarrow> bytes \<Rightarrow> TeeReceipt" where
  "build_receipt now self signal_id provider =
     (let message = compute_message signal_id provider;
          signature = sign_message (trb_enclave_keypair self) message;
          rd = compute_report_data signal_id provider
      in \<lparr>mr_enclave = trb_mr_enclave self, mr_signer = trb_mr_signer self,
          enclave_signature = signature, enclave_pubkey = pubkey (trb_enclave_keypair self),
          report_data = rd,
          attestation_timestamp =
            (if trb_attestation_timestamp self \<noteq> 0 then trb_attestation_timestamp self else now),
          platform = AMD_SEV_SNP, svn = trb_svn self, tr_reserved = replicate 13 0\<rparr>)"


section \<open>The on-chain verification engine\<close>

text \<open>
  Modelled from the spec: the on-chain program (\<open>oracle/onchain\<close>, which the integration
  tests load from its IDL and call through \<open>program.rpc\<close>) is not part of the sources.
  Its records, errors and operations are taken from sections 3, 4 and 7 of the
  specification; field names are the ones the tests read from the fetched accounts.
  Slots, times and basis points are mathematical integers, as no width is specified.
  Every operation returns the error of the first violated precondition, or the new state;
  a failed operation mutates nothing.
\<close>

type_synonym identity = bytes

datatype error =
    Unauthorized
  | AlreadyInitialized | AlreadyRegistered | SignalAlreadyExists | SignalNotFound
  | AlreadyRevoked | InvalidUpdate
  | ProtocolPaused | ProviderNotActive | InsufficientSources | ConfidenceBelowMinimum
  | ValidityPeriodTooShort | ValidityPeriodTooLong | SignalExpired
  | EnclaveNotAllowed | ReportDataMismatch | SignatureInvalid | AttestationStale
  | AllowlistFull | EnclaveAlreadyAllowed

datatype SignalStatus = Active | Revoked

record GlobalConfig =
  admin :: identity
  min_validity_slots :: int
  max_validity_slots :: int
  min_source_count :: int
  min_confidence :: int
  is_paused :: bool

record ProviderRegistry =
  authority :: identity
  is_active :: bool
  signal_count :: int
  allowed_enclaves :: "bytes list"

record SignalAccount =
  provider :: identity
  signal_id :: bytes
  market_context :: MarketContext
  signal_assessment :: SignalAssessment
  tee_receipt :: TeeReceipt
  status :: SignalStatus

text \<open>
  Modelled from the spec: the persisted records behind the address resolver of section 6.
  There is one configuration record, one registry per authority and one signal account
  per \<open>(provider, signal_id)\<close>.
\<close>

record state =
  config :: "GlobalConfig option"
  providers :: "identity \<rightharpoonup> ProviderRegistry"
  signals :: "identity \<times> bytes \<rightharpoonup> SignalAccount"

text \<open>
  Modelled from the spec: what the host environment supplies (section 6 and the open
  questions of section 9): the slot counter, the time, the signature verification primitive
  (public key, message, signature), the attestation freshness bound (\<open>None\<close>: no bound)
  and the maximum size of an allowlist.
\<close>

record host =
  current_slot :: int
  current_time :: int
  sig_verify :: "bytes \<Rightarrow> bytes \<Rightarrow> bytes \<Rightarrow> bool"
  freshness_bound :: "int option"
  max_allowlist :: nat

subsection \<open>Attestation binding module (section 4.1)\<close>

text \<open>
  Modelled from the spec: \<open>compute_binding_hash\<close> is the on-chain function the test
  helper \<open>_compute_message\<close> "must match"; the digest is SHA-256, as in that helper.
\<close>

definition compute_binding_hash :: "bytes \<Rightarrow> identity \<Rightarrow> bytes" where
  "compute_binding_hash sid submitter_identity = sha256 (sid @ submitter_identity)"

text \<open>Modelled from the spec: \<open>report_data = binding_hash || zero_padding(32)\<close>.\<close>

definition build_report_data :: "bytes \<Rightarrow> bytes" where
  "build_report_data binding_hash = binding_hash @ replicate 32 0"

text \<open>Modelled from the spec: step 2 of \<open>verify_receipt\<close>, the report-data check.\<close>

definition report_data_matches :: "TeeReceipt \<Rightarrow> bytes \<Rightarrow> bool" where
  "report_data_matches receipt expected_hash =
     (take 32 (report_data receipt) = expected_hash
      \<and> drop 32 (report_data receipt) = replicate 32 0)"

text \<open>Modelled from the spec: step 4 of \<open>verify_receipt\<close>, which needs a configured bound.\<close>

definition is_stale :: "host \<Rightarrow> TeeReceipt \<Rightarrow> bool" where
  "is_stale h receipt =
     (case freshness_bound h of
        None \<Rightarrow> False
      | Some bound \<Rightarrow> bound < current_time h - attestation_timestamp receipt)"

text \<open>Modelled from the spec: \<open>verify_receipt\<close>, steps 1 to 5 in order.\<close>

definition verify_receipt ::
  "host \<Rightarrow> TeeReceipt \<Rightarrow> bytes \<Rightarrow> identity \<Rightarrow> bytes list \<Rightarrow> error + unit" where
  "verify_receipt h receipt sid submitter_identity allowed =
     (if mr_enclave receipt \<notin> set allowed then Inl EnclaveNotAllowed
      else
        let expected_hash = compute_binding_hash sid submitter_identity in
        if \<not> report_data_matches receipt expected_hash then Inl ReportDataMismatch
        else if \<not> sig_verify h (enclave_pubkey receipt) expected_hash (enclave_signature receipt)
          then Inl SignatureInvalid
        else if is_stale h receipt then Inl AttestationStale
        else Inr ())"

subsection \<open>Policy store (section 4.2)\<close>

text \<open>Modelled from the spec: \<open>initialize\<close> succeeds exactly once.\<close>

definition initialize :: "state \<Rightarrow> identity \<Rightarrow> int \<Rightarrow> int \<Rightarrow> int \<Rightarrow> int \<Rightarrow> error + state" where
  "initialize st adm min_validity max_validity min_sources min_conf =
     (case config st of
        Some _ \<Rightarrow> Inl AlreadyInitialized
      | None \<Rightarrow>
          Inr (st\<lparr>config := Some \<lparr>admin = adm, min_validity_slots = min_validity,
                                  max_validity_slots = max_validity,
                                  min_source_count = min_sources, min_confidence = min_conf,
                                  is_paused = False\<rparr>\<rparr>))"

text \<open>
  Modelled from the spec: \<open>set_paused\<close> fails \<open>Unauthorized\<close> unless the caller is the
  admin; without a configuration record no caller is.
\<close>

definition set_paused :: "state \<Rightarrow> identity \<Rightarrow> bool \<Rightarrow> error + state" where
  "set_paused st caller v =
     (case config st of
        None \<Rightarrow> Inl Unauthorized
      | Some cfg \<Rightarrow>
          if caller \<noteq> admin cfg then Inl Unauthorized
          else Inr (st\<lparr>config := Some (cfg\<lparr>is_paused := v\<rparr>)\<rparr>))"

subsection \<open>Provider registry (section 4.3)\<close>

text \<open>Modelled from the spec: \<open>register\<close>; the display name is not part of the record.\<close>

definition register :: "state \<Rightarrow> identity \<Rightarrow> bytes \<Rightarrow> bytes \<Rightarrow> error + state" where
  "register st auth display_name initial_enclave =
     (case providers st auth of
        Some _ \<Rightarrow> Inl AlreadyRegistered
      | None \<Rightarrow>
          Inr (st\<lparr>providers := (providers st)(auth \<mapsto>
                 \<lparr>authority = auth, is_active = True, signal_count = 0,
                  allowed_enclaves = [initial_enclave]\<rparr>)\<rparr>))"

text \<open>
  Modelled from the spec: \<open>add_enclave\<close> on the registry of \<open>owner\<close>. Without a registry
  the caller is not its authority. The allowlist is an ordered set: a full list and a
  duplicate are refused, in the order the spec names them.
\<close>

definition add_enclave :: "host \<Rightarrow> state \<Rightarrow> identity \<Rightarrow> identity \<Rightarrow> bytes \<Rightarrow> error + state" where
  "add_enclave h st caller owner new_enclave =
     (case providers st owner of
        None \<Rightarrow> Inl Unauthorized
      | Some reg \<Rightarrow>
          if caller \<noteq> authority reg then Inl Unauthorized
          else if max_allowlist h \<le> length (allowed_enclaves reg) then Inl AllowlistFull
          else if new_enclave \<in> set (allowed_enclaves reg) then Inl EnclaveAlreadyAllowed
          else Inr (st\<lparr>providers := (providers st)(owner \<mapsto>
                      reg\<lparr>allowed_enclaves := allowed_enclaves reg @ [new_enclave]\<rparr>)\<rparr>))"

text \<open>Modelled from the spec: \<open>deactivate\<close>, by the authority or the global admin.\<close>

definition deactivate :: "state \<Rightarrow> identity \<Rightarrow> identity \<Rightarrow> error + state" where
  "deactivate st caller owner =
     (case providers st owner of
        None \<Rightarrow> Inl Unauthorized
      | Some reg \<Rightarrow>
          if caller = authority reg \<or> (case config st of None \<Rightarrow> False | Some cfg \<Rightarrow> caller = admin cfg)
          then Inr (st\<lparr>providers := (providers st)(owner \<mapsto> reg\<lparr>is_active := False\<rparr>)\<rparr>)
          else Inl Unauthorized)"


subsection \<open>Signal lifecycle (section 4.4)\<close>

text \<open>Modelled from the spec: the validity width of check 6.\<close>

definition validity_width :: "SignalAssessment \<Rightarrow> int" where
  "validity_width a = valid_until_slot a - generated_at_slot a"

text \<open>
  Modelled from the spec: checks 1 and 2 of \<open>submit_signal\<close>, which \<open>update_signal\<close>
  re-runs: the configuration exists and is not paused, the caller is a registered, active
  provider. The records read are handed on to the later checks.
\<close>

definition check_gate :: "state \<Rightarrow> identity \<Rightarrow> error + GlobalConfig \<times> ProviderRegistry" where
  "check_gate st caller =
     (case config st of
        None \<Rightarrow> Inl ProtocolPaused
      | Some cfg \<Rightarrow>
          if is_paused cfg then Inl ProtocolPaused
          else (case providers st caller of
                  None \<Rightarrow> Inl ProviderNotActive
                | Some reg \<Rightarrow>
                    if \<not> is_active reg then Inl ProviderNotActive else Inr (cfg, reg)))"

text \<open>
  Modelled from the spec: checks 4 to 8 of \<open>submit_signal\<close> on a payload, in order; the
  attestation binding check comes last, against the provider's current allowlist.
\<close>

definition check_payload ::
  "host \<Rightarrow> GlobalConfig \<Rightarrow> ProviderRegistry \<Rightarrow> identity \<Rightarrow> bytes \<Rightarrow>
   MarketContext \<Rightarrow> SignalAssessment \<Rightarrow> TeeReceipt \<Rightarrow> error + unit" where
  "check_payload h cfg reg caller sid mc a r =
     (if source_count mc < min_source_count cfg then Inl InsufficientSources
      else if confidence a < min_confidence cfg then Inl ConfidenceBelowMinimum
      else if validity_width a < min_validity_slots cfg then Inl ValidityPeriodTooShort
      else if max_validity_slots cfg < validity_width a then Inl ValidityPeriodTooLong
      else if valid_until_slot a \<le> current_slot h then Inl SignalExpired
      else verify_receipt h r sid caller (allowed_enclaves reg))"

text \<open>
  Modelled from the spec: \<open>submit_signal\<close>, checks 1 to 8 in order. On success the account
  of \<open>(caller, signal_id)\<close> is stored with status \<open>Active\<close> and the provider's
  \<open>signal_count\<close> is incremented.
\<close>

definition submit_signal ::
  "host \<Rightarrow> state \<Rightarrow> identity \<Rightarrow> bytes \<Rightarrow> MarketContext \<Rightarrow> SignalAssessment \<Rightarrow> TeeReceipt \<Rightarrow>
   error + state" where
  "submit_signal h st caller sid mc a r =
     (case check_gate st caller of
        Inl e \<Rightarrow> Inl e
      | Inr (cfg, reg) \<Rightarrow>
          if signals st (caller, sid) \<noteq> None then Inl SignalAlreadyExists
          else (case check_payload h cfg reg caller sid mc a r of
                  Inl e \<Rightarrow> Inl e
                | Inr _ \<Rightarrow>
                    Inr (st\<lparr>signals := (signals st)((caller, sid) \<mapsto>
                               \<lparr>provider = caller, signal_id = sid, market_context = mc,
                                signal_assessment = a, tee_receipt = r, status = Active\<rparr>),
                            providers := (providers st)(caller \<mapsto>
                               reg\<lparr>signal_count := signal_count reg + 1\<rparr>)\<rparr>)))"

text \<open>
  Modelled from the spec: the checks of \<open>update_signal\<close> other than the status check,
  each as the error it reports or \<open>None\<close> when it passes. Checks 4 to 8 are the ones
  \<open>check_payload\<close> makes for \<open>submit_signal\<close>, one by one.
\<close>

fun first_error :: "error option list \<Rightarrow> error option" where
  "first_error [] = None"
| "first_error (None # cs) = first_error cs"
| "first_error (Some e # cs) = Some e"

definition payload_checks ::
  "host \<Rightarrow> GlobalConfig \<Rightarrow> ProviderRegistry \<Rightarrow> identity \<Rightarrow> bytes \<Rightarrow>
   MarketContext \<Rightarrow> SignalAssessment \<Rightarrow> TeeReceipt \<Rightarrow> error option list" where
  "payload_checks h cfg reg caller sid mc a r =
     [if source_count mc < min_source_count cfg then Some InsufficientSources else None,
      if confidence a < min_confidence cfg then Some ConfidenceBelowMinimum else None,
      if validity_width a < min_validity_slots cfg then Some ValidityPeriodTooShort else None,
      if max_validity_slots cfg < validity_width a then Some ValidityPeriodTooLong else None,
      if valid_until_slot a \<le> current_slot h then Some SignalExpired else None,
      case verify_receipt h r sid caller (allowed_enclaves reg) of
        Inl e \<Rightarrow> Some e
      | Inr _ \<Rightarrow> None]"

definition update_checks ::
  "host \<Rightarrow> state \<Rightarrow> identity \<Rightarrow> identity \<Rightarrow> bytes \<Rightarrow> MarketContext \<Rightarrow> SignalAssessment \<Rightarrow>
   TeeReceipt \<Rightarrow> error option list" where
  "update_checks h st caller owner sid mc a r =
     [case config st of
        None \<Rightarrow> Some ProtocolPaused
      | Some cfg \<Rightarrow> if is_paused cfg then Some ProtocolPaused else None,
      case providers st caller of
        None \<Rightarrow> Some ProviderNotActive
      | Some reg \<Rightarrow> if \<not> is_active reg then Some ProviderNotActive else None,
      case signals st (owner, sid) of
        None \<Rightarrow> Some SignalNotFound
      | Some acc \<Rightarrow> None,
      case signals st (owner, sid) of
        None \<Rightarrow> None
      | Some acc \<Rightarrow> if provider acc \<noteq> caller then Some Unauthorized else None]
     @ (case config st of
          None \<Rightarrow> []
        | Some cfg \<Rightarrow>
            (case providers st caller of
               None \<Rightarrow> []
             | Some reg \<Rightarrow> payload_checks h cfg reg caller sid mc a r))"

text \<open>
  Modelled from the spec: the status check of \<open>update_signal\<close>: a record that is not
  \<open>Active\<close> cannot be updated.
\<close>

definition status_check :: "state \<Rightarrow> identity \<Rightarrow> bytes \<Rightarrow> error option" where
  "status_check st owner sid =
     (case signals st (owner, sid) of
        None \<Rightarrow> None
      | Some acc \<Rightarrow> if status acc \<noteq> Active then Some InvalidUpdate else None)"

text \<open>
  Modelled from the spec: \<open>update_signal\<close> on the account of \<open>(owner, signal_id)\<close>. It
  re-runs checks 1, 2 and 4 to 8 on the new payload, with the existence check inverted
  (\<open>SignalNotFound\<close>, \<open>Unauthorized\<close>), and additionally fails \<open>InvalidUpdate\<close> on a
  record that is not \<open>Active\<close>. The spec does not say where the status check stands among
  the other checks, so its place is the argument \<open>pos\<close>: the status check is made
  before the other check of index \<open>pos\<close> (first when \<open>pos = 0\<close>, last when \<open>pos\<close> is
  their number or more). The first failing check gives the error. On success the three
  payload records are replaced wholesale.
\<close>

definition update_signal ::
  "nat \<Rightarrow> host \<Rightarrow> state \<Rightarrow> identity \<Rightarrow> identity \<Rightarrow> bytes \<Rightarrow> MarketContext \<Rightarrow>
   SignalAssessment \<Rightarrow> TeeReceipt \<Rightarrow> error + state" where
  "update_signal pos h st caller owner sid mc a r =
     (let others = update_checks h st caller owner sid mc a r;
          checks = take pos others @ [status_check st owner sid] @ drop pos others
      in case first_error checks of
           Some e \<Rightarrow> Inl e
         | None \<Rightarrow>
             (case signals st (owner, sid) of
                None \<Rightarrow> Inl SignalNotFound
              | Some acc \<Rightarrow>
                  Inr (st\<lparr>signals := (signals st)((owner, sid) \<mapsto>
                         acc\<lparr>market_context := mc, signal_assessment := a,
                             tee_receipt := r\<rparr>)\<rparr>)))"

text \<open>
  Modelled from the spec: \<open>revoke_signal\<close> on the account of \<open>(owner, signal_id)\<close>; it
  reads no configuration and no registry (the tests pass it the signal account and the
  provider only). \<open>Unauthorized\<close> unless the caller owns the record, then
  \<open>AlreadyRevoked\<close>.
\<close>

definition revoke_signal :: "state \<Rightarrow> identity \<Rightarrow> identity \<Rightarrow> bytes \<Rightarrow> error + state" where
  "revoke_signal st caller owner sid =
     (case signals st (owner, sid) of
        None \<Rightarrow> Inl SignalNotFound
      | Some acc \<Rightarrow>
          if provider acc \<noteq> caller then Inl Unauthorized
          else if status acc = Revoked then Inl AlreadyRevoked
          else Inr (st\<lparr>signals := (signals st)((owner, sid) \<mapsto> acc\<lparr>status := Revoked\<rparr>)\<rparr>))"

subsection \<open>Sequences of calls\<close>

text \<open>
  Modelled from the spec: the operations exposed to collaborators (section 6), each with
  its caller and arguments, and a run of calls, each under the host values of its own
  moment. A call that fails leaves the state as it was (section 7). The place \<open>pos\<close> of
  the status check of \<open>update_signal\<close> is the same for all calls of a run.
\<close>

datatype call =
    InitializeConfig identity int int int int
  | SetPaused identity bool
  | RegisterProvider identity bytes bytes
  | AddEnclave identity identity bytes
  | DeactivateProvider identity identity
  | SubmitSignal identity bytes MarketContext SignalAssessment TeeReceipt
  | UpdateSignal identity identity bytes MarketContext SignalAssessment TeeReceipt
  | RevokeSignal identity identity bytes

fun apply_call :: "nat \<Rightarrow> host \<Rightarrow> state \<Rightarrow> call \<Rightarrow> error + state" where
  "apply_call pos h st (InitializeConfig adm mn mx ms mc) = initialize st adm mn mx ms mc"
| "apply_call pos h st (SetPaused caller v) = set_paused st caller v"
| "apply_call pos h st (RegisterProvider auth name e) = register st auth name e"
| "apply_call pos h st (AddEnclave caller owner e) = add_enclave h st caller owner e"
| "apply_call pos h st (DeactivateProvider caller owner) = deactivate st caller owner"
| "apply_call pos h st (SubmitSignal caller sid mc a r) = submit_signal h st caller sid mc a r"
| "apply_call pos h st (UpdateSignal caller owner sid mc a r) =
     update_signal pos h st caller owner sid mc a r"
| "apply_call pos h st (RevokeSignal caller owner sid) = revoke_signal st caller owner sid"

fun run :: "nat \<Rightarrow> state \<Rightarrow> (host \<times> call) list \<Rightarrow> state" where
  "run pos st [] = st"
| "run pos st ((h, c) # cs) =
     (case apply_call pos h st c of Inl e \<Rightarrow> run pos st cs | Inr st' \<Rightarrow> run pos st' cs)"

section \<open>Scenarios of the integration tests\<close>

text \<open>
  The constants of \<open>test_signal_oracle.py\<close>, the fixture \<open>test_mr_enclave\<close> and the
  payloads the tests build. The wallet key, the signal ids and the enclave key pair are
  generated at run time there; fixed values stand for them here. The example key pair and
  the example verification primitive stand for Ed25519: a signature is the public key
  followed by the message.
\<close>

definition MIN_VALIDITY_SLOTS :: int where
  "MIN_VALIDITY_SLOTS = 10"

definition MAX_VALIDITY_SLOTS :: int where
  "MAX_VALIDITY_SLOTS = 1000"

definition MIN_SOURCE_COUNT :: int where
  "MIN_SOURCE_COUNT = 1"

definition MIN_CONFIDENCE :: int where
  "MIN_CONFIDENCE = 5000"

definition test_mr_enclave :: bytes where
  "test_mr_enclave =
     sha256 [0x74, 0x65, 0x73, 0x74, 0x2d, 0x65, 0x6e, 0x63, 0x6c, 0x61, 0x76, 0x65, 0x2d, 0x76, 0x31]"

definition example_wallet :: identity where
  "example_wallet = replicate 32 1"


definition example_signal_id :: bytes where
  "example_signal_id = replicate 32 2"

definition example_other_signal_id :: bytes where
  "example_other_signal_id = replicate 32 3"

definition example_keypair :: Keypair where
  "example_keypair = \<lparr>sign_message = (\<lambda>m. replicate 32 9 @ m), pubkey = replicate 32 9\<rparr>"

definition example_host :: "int \<Rightarrow> host" where
  "example_host slot =
     \<lparr>current_slot = slot, current_time = 1700000000,
      sig_verify = (\<lambda>pk m sg. sg = pk @ m), freshness_bound = None, max_allowlist = 8\<rparr>"

definition provider_name :: bytes where
  "provider_name =
     [0x54, 0x65, 0x73, 0x74, 0x50, 0x72, 0x6f, 0x76, 0x69, 0x64, 0x65, 0x72] @ replicate 20 0"

text \<open>The records after \<open>test_initialize_config\<close> and \<open>test_register_provider\<close>.\<close>

definition test_config :: GlobalConfig where
  "test_config =
     \<lparr>admin = example_wallet, min_validity_slots = MIN_VALIDITY_SLOTS,
      max_validity_slots = MAX_VALIDITY_SLOTS, min_source_count = MIN_SOURCE_COUNT,
      min_confidence = MIN_CONFIDENCE, is_paused = False\<rparr>"

definition test_registry :: ProviderRegistry where
  "test_registry =
     \<lparr>authority = example_wallet, is_active = True, signal_count = 0,
      allowed_enclaves = [test_mr_enclave]\<rparr>"

definition empty_state :: state where
  "empty_state = \<lparr>config = None, providers = Map.empty, signals = Map.empty\<rparr>"

definition test_state :: state where
  "test_state =
     \<lparr>config = Some test_config, providers = [example_wallet \<mapsto> test_registry],
      signals = Map.empty\<rparr>"

definition test_market_context :: "int \<Rightarrow> MarketContext" where
  "test_market_context slot =
     build_market_context (with_slot 1700000000 MarketContextBuilder_new slot)"

definition test_assessment :: "int \<Rightarrow> int \<Rightarrow> SignalAssessment" where
  "test_assessment slot duration =
     build_assessment (with_validity SignalAssessmentBuilder_new slot duration)"

definition test_receipt :: "bytes \<Rightarrow> identity \<Rightarrow> TeeReceipt" where
  "test_receipt sid wallet =
     build_receipt 1700000000
       (with_enclave (TeeReceiptBuilder_new example_keypair) test_mr_enclave) sid wallet"

text \<open>
  The assessments of \<open>test_submit_low_confidence_fails\<close> and
  \<open>test_submit_expired_signal_fails\<close>.
\<close>

definition test_low_confidence_assessment :: "int \<Rightarrow> SignalAssessment" where
  "test_low_confidence_assessment slot =
     build_assessment (with_confidence (with_validity SignalAssessmentBuilder_new slot 100) 1000)"


text \<open>The state of the tests once the admin has paused the protocol.\<close>

definition test_paused_state :: "state \<Rightarrow> state" where
  "test_paused_state st = st\<lparr>config := Some (test_config\<lparr>is_paused := True\<rparr>)\<rparr>"

text \<open>The signal account and the state after the submission and revocation of
  \<open>test_revoke_signal\<close>, at slot 1000.\<close>

definition test_revoked_account :: SignalAccount where
  "test_revoked_account =
     \<lparr>provider = example_wallet, signal_id = example_signal_id,
      market_context = test_market_context 1000,
      signal_assessment = test_assessment 1000 100,
      tee_receipt = test_receipt example_signal_id example_wallet, status = Revoked\<rparr>"

definition test_revoked_state :: state where
  "test_revoked_state =
     \<lparr>config = Some test_config,
      providers = [example_wallet \<mapsto> test_registry\<lparr>signal_count := 1\<rparr>],
      signals = [(example_wallet, example_signal_id) \<mapsto> test_revoked_account]\<rparr>"

text \<open>
  The state of \<open>test_full_signal_lifecycle\<close> after its submission at slot 1000, and the
  assessment of its update.
\<close>

definition test_active_state :: state where
  "test_active_state =
     \<lparr>config = Some test_config,
      providers = [example_wallet \<mapsto> test_registry\<lparr>signal_count := 1\<rparr>],
      signals = [(example_wallet, example_signal_id) \<mapsto> test_revoked_account\<lparr>status := Active\<rparr>]\<rparr>"

definition test_updated_assessment :: "int \<Rightarrow> SignalAssessment" where
  "test_updated_assessment slot =
     build_assessment (with_confidence (with_validity SignalAssessmentBuilder_new slot 150) 9000)"

section \<open>The digest has 32 bytes\<close>

lemma length_digest_of: "length (digest_of H) = 32"
  by (induction H rule: digest_of.induct) (simp add: bytes_of_w32_def)

lemma length_sha256: "length (sha256 m) = 32"
  by (simp add: sha256_def Let_def length_digest_of)

section \<open>Known answers of the digest\<close>

text \<open>
  The model is run on the three bytes \<open>abc\<close> (the one-block example of FIPS 180-4) and on
  the two 64-byte hash inputs of the example signal ids with the example wallet; the
  digests are those \<open>hashlib.sha256\<close> returns.
\<close>

lemma sha256_abc:
  "sha256 [0x61, 0x62, 0x63] =
     [0xba, 0x78, 0x16, 0xbf, 0x8f, 0x01, 0xcf, 0xea, 0x41, 0x41, 0x40, 0xde, 0x5d, 0xae, 0x22, 0x23,
      0xb0, 0x03, 0x61, 0xa3, 0x96, 0x17, 0x7a, 0x9c, 0xb4, 0x10, 0xff, 0x61, 0xf2, 0x00, 0x15, 0xad]"
  by code_simp

lemma sha256_example_binding:
  "sha256 (replicate 32 2 @ replicate 32 1) =
     [0xc5, 0x7d, 0x4f, 0x59, 0xc9, 0x61, 0xb1, 0x3e, 0x40, 0x6c, 0xd9, 0x91, 0xb0, 0xf3, 0x42, 0xec,
      0x79, 0xe5, 0x71, 0xdc, 0x2c, 0x14, 0x15, 0xff, 0x72, 0xc6, 0x55, 0x06, 0x45, 0xa3, 0xb1, 0x98]"
  by code_simp

lemma sha256_other_binding:
  "sha256 (replicate 32 3 @ replicate 32 1) =
     [0xc1, 0x3b, 0x63, 0xea, 0x04, 0x57, 0x0e, 0xfe, 0xa5, 0x73, 0x74, 0x34, 0xb8, 0xa8, 0xc3, 0x5f,
      0x76, 0xc1, 0x2a, 0x4a, 0xd2, 0x3d, 0x37, 0xdd, 0xa0, 0x67, 0x48, 0x5d, 0xb8, 0xa9, 0xde, 0x37]"
  by code_simp


section \<open>The binding hash and the report data of the receipt builder\<close>

text \<open>
  C1. The binding hash computed by \<open>_compute_message\<close> is the SHA-256 digest of
  \<open>signal_id || provider\<close>, in this order; it has 32 bytes; it is the message the
  builder signs and the first 32 bytes of the report data it embeds; equal inputs give
  equal outputs. This holds for byte strings of any length, so for 32-byte ones.
\<close>

theorem binding_hash_is_sha256:
  "compute_message sid p = sha256 (sid @ p)
   \<and> length (compute_message sid p) = 32
   \<and> take 32 (compute_report_data sid p) = compute_message sid p
   \<and> enclave_signature (build_receipt now b sid p)
       = sign_message (trb_enclave_keypair b) (compute_message sid p)
   \<and> (sid = sid' \<and> p = p' \<longrightarrow> compute_message sid p = compute_message sid' p')"
  by (simp add: compute_message_def compute_report_data_def build_receipt_def Let_def length_sha256)

text \<open>C1 at the example signal id and wallet, both of 32 bytes.\<close>

theorem binding_hash_is_sha256_witness:
  "length example_signal_id = 32 \<and> length example_wallet = 32
   \<and> compute_message example_signal_id example_wallet
       = sha256 (example_signal_id @ example_wallet)
   \<and> length (compute_message example_signal_id example_wallet) = 32
   \<and> take 32 (compute_report_data example_signal_id example_wallet)
       = compute_message example_signal_id example_wallet"
proof -
  have "length example_signal_id = 32" and "length example_wallet = 32"
    by (simp_all add: example_signal_id_def example_wallet_def)
  with binding_hash_is_sha256 [of example_signal_id example_wallet 0
      "TeeReceiptBuilder_new example_keypair" example_signal_id example_wallet]
  show ?thesis by blast
qed

text \<open>
  C2. The report data built by \<open>_compute_report_data\<close> has exactly 64 bytes: the 32-byte
  binding hash in bytes 0..31, followed by 32 zero bytes in bytes 32..63; it is the
  \<open>report_data\<close> of the receipt the builder returns.
\<close>

theorem report_data_layout:
  "length (compute_report_data sid p) = 64
   \<and> compute_report_data sid p = compute_message sid p @ replicate 32 0
   \<and> length (compute_message sid p) = 32
   \<and> take 32 (compute_report_data sid p) = compute_message sid p
   \<and> drop 32 (compute_report_data sid p) = replicate 32 0
   \<and> report_data (build_receipt now b sid p) = compute_report_data sid p"
  by (simp add: compute_message_def compute_report_data_def build_receipt_def Let_def length_sha256)

section \<open>The off-chain attester\<close>

text \<open>
  C9. \<open>hash_signal_data\<close> hashes the concatenation of its two arguments and nothing
  else: two ways of splitting the same byte string into \<open>market_context\<close> and
  \<open>signal_assessment\<close> give the same 32-byte digest.
\<close>

theorem hash_signal_data_ignores_split:
  "m @ s = m' @ s' \<Longrightarrow>
     hash_signal_data m s = hash_signal_data m' s' \<and> length (hash_signal_data m s) = 32"
  by (simp add: hash_signal_data_def Let_def length_sha256)

text \<open>C9 at two distinct splits of the three bytes 1, 2, 3.\<close>

theorem hash_signal_data_ignores_split_witness:
  "[1 :: byte] @ [2, 3] = [1, 2] @ [3] \<and> ([1 :: byte], [2, 3 :: byte]) \<noteq> ([1, 2], [3])
   \<and> hash_signal_data [1] [2, 3] = hash_signal_data [1, 2] [3]"
  using hash_signal_data_ignores_split [of "[1]" "[2, 3]" "[1, 2]" "[3]"]
  by simp

text \<open>
  C4. When \<open>is_available\<close> is false, \<open>get_report\<close> returns \<open>None\<close> for every user data
  (so for every 64-byte one) and \<open>get_measurement\<close> returns \<open>None\<close>: neither returns a
  success value in that state.
\<close>

theorem unavailable_attester_returns_None:
  "\<not> is_available a \<Longrightarrow>
     fst (get_report a user_data) = None \<and> fst (get_measurement a) = None"
  by (simp add: get_report_def get_measurement_def)

text \<open>C4 at a freshly constructed attester and 64 zero bytes of user data.\<close>

theorem unavailable_attester_returns_None_witness:
  "\<not> is_available (fst SevSnpAttester_init)
   \<and> length (replicate 64 (0 :: byte)) = 64
   \<and> fst (get_report (fst SevSnpAttester_init) (replicate 64 0)) = None
   \<and> fst (get_measurement (fst SevSnpAttester_init)) = None"
proof -
  have h: "\<not> is_available (fst SevSnpAttester_init)"
    by (simp add: is_available_def SevSnpAttester_init_def)
  from unavailable_attester_returns_None [OF h, of "replicate 64 0"] h show ?thesis
    by simp
qed

text \<open>
  C10. Attestation production is unavailable unconditionally: \<open>detect_platform\<close> returns
  \<open>UNKNOWN\<close>, \<open>get_attester\<close> returns \<open>None\<close>, a freshly constructed
  \<open>SevSnpAttester\<close> is not available, and \<open>get_report\<close> and \<open>get_measurement\<close> return
  \<open>None\<close> for every attester and every input.
\<close>

theorem attestation_production_unavailable:
  "fst detect_platform = UNKNOWN
   \<and> fst get_attester = None
   \<and> is_available (fst SevSnpAttester_init) = False
   \<and> fst (get_report a user_data) = None
   \<and> fst (get_measurement a) = None"
  by (simp add: detect_platform_def get_attester_def SevSnpAttester_init_def is_available_def
      get_report_def get_measurement_def)

section \<open>Checks of \<open>submit_signal\<close>\<close>

lemma check_gate_ok:
  "config st = Some cfg \<Longrightarrow> \<not> is_paused cfg \<Longrightarrow> providers st caller = Some reg \<Longrightarrow> is_active reg
   \<Longrightarrow> check_gate st caller = Inr (cfg, reg)"
  by (simp add: check_gate_def)

lemma check_gate_Inr:
  "check_gate st caller = Inr (cfg, reg) \<Longrightarrow>
     config st = Some cfg \<and> \<not> is_paused cfg \<and> providers st caller = Some reg \<and> is_active reg"
  by (auto simp: check_gate_def split: option.splits if_splits)

lemma submit_signal_after_gate:
  "check_gate st caller = Inr (cfg, reg) \<Longrightarrow> signals st (caller, sid) = None \<Longrightarrow>
   submit_signal h st caller sid mc a r =
     (case check_payload h cfg reg caller sid mc a r of
        Inl e \<Rightarrow> Inl e
      | Inr _ \<Rightarrow>
          Inr (st\<lparr>signals := (signals st)((caller, sid) \<mapsto>
                     \<lparr>provider = caller, signal_id = sid, market_context = mc,
                      signal_assessment = a, tee_receipt = r, status = Active\<rparr>),
                  providers := (providers st)(caller \<mapsto>
                     reg\<lparr>signal_count := signal_count reg + 1\<rparr>)\<rparr>))"
  by (simp add: submit_signal_def)

lemma submit_signal_Inr_payload:
  "submit_signal h st caller sid mc a r = Inr st' \<Longrightarrow>
     \<exists>cfg reg. check_gate st caller = Inr (cfg, reg) \<and> signals st (caller, sid) = None
        \<and> check_payload h cfg reg caller sid mc a r = Inr ()"
  by (auto simp: submit_signal_def split: sum.splits if_splits)

lemma check_payload_Inr:
  "check_payload h cfg reg caller sid mc a r = Inr u \<Longrightarrow>
     min_source_count cfg \<le> source_count mc \<and> min_confidence cfg \<le> confidence a
     \<and> min_validity_slots cfg \<le> validity_width a \<and> validity_width a \<le> max_validity_slots cfg
     \<and> current_slot h < valid_until_slot a
     \<and> verify_receipt h r sid caller (allowed_enclaves reg) = Inr ()"
  by (auto simp: check_payload_def split: if_splits)

lemma check_payload_ok:
  "min_source_count cfg \<le> source_count mc \<Longrightarrow> min_confidence cfg \<le> confidence a \<Longrightarrow>
   min_validity_slots cfg \<le> validity_width a \<Longrightarrow> validity_width a \<le> max_validity_slots cfg \<Longrightarrow>
   current_slot h < valid_until_slot a \<Longrightarrow>
   verify_receipt h r sid caller (allowed_enclaves reg) = Inr () \<Longrightarrow>
   check_payload h cfg reg caller sid mc a r = Inr ()"
  by (simp add: check_payload_def)

lemma submit_signal_Inr:
  assumes "submit_signal h st caller sid mc a r = Inr st'"
  shows "\<exists>cfg reg. config st = Some cfg \<and> \<not> is_paused cfg \<and> providers st caller = Some reg
           \<and> is_active reg \<and> signals st (caller, sid) = None
           \<and> check_payload h cfg reg caller sid mc a r = Inr ()"
proof -
  from submit_signal_Inr_payload [OF assms] obtain cfg reg where
    g: "check_gate st caller = Inr (cfg, reg)" and n: "signals st (caller, sid) = None"
    and p: "check_payload h cfg reg caller sid mc a r = Inr ()"
    by blast
  from check_gate_Inr [OF g] n p show ?thesis by blast
qed

lemma submit_signal_not_Inr:
  "(\<And>st'. submit_signal h st caller sid mc a r \<noteq> Inr st') \<Longrightarrow>
     \<exists>e. submit_signal h st caller sid mc a r = Inl e"
  by (cases "submit_signal h st caller sid mc a r") auto

lemma submit_signal_success:
  assumes "config st = Some cfg" and "\<not> is_paused cfg"
    and "providers st caller = Some reg" and "is_active reg"
    and "signals st (caller, sid) = None"
    and "check_payload h cfg reg caller sid mc a r = Inr ()"
  shows "\<exists>st' acc. submit_signal h st caller sid mc a r = Inr st'
                \<and> signals st' (caller, sid) = Some acc \<and> status acc = Active
                \<and> signal_assessment acc = a"
proof -
  have gate: "check_gate st caller = Inr (cfg, reg)"
    using assms(1-4) by (simp add: check_gate_ok)
  show ?thesis
    by (simp add: submit_signal_after_gate [OF gate assms(5)] assms(6))
qed

section \<open>The test scenarios in the model\<close>

lemma test_state_reached:
  "run pos empty_state
     [(h, InitializeConfig example_wallet MIN_VALIDITY_SLOTS MAX_VALIDITY_SLOTS
            MIN_SOURCE_COUNT MIN_CONFIDENCE),
      (h', RegisterProvider example_wallet provider_name test_mr_enclave)]
   = test_state"
  by (simp add: empty_state_def test_state_def initialize_def register_def test_config_def
      test_registry_def)

lemma test_receipt_verifies:
  "verify_receipt (example_host slot) (test_receipt sid wallet) sid wallet
     (allowed_enclaves test_registry) = Inr ()"
  by (simp add: verify_receipt_def test_receipt_def build_receipt_def with_enclave_def
      TeeReceiptBuilder_new_def example_keypair_def example_host_def test_registry_def
      report_data_matches_def compute_binding_hash_def compute_message_def
      compute_report_data_def is_stale_def Let_def length_sha256)

lemma test_assessment_fields:
  "validity_width (test_assessment slot d) = d"
  "valid_until_slot (test_assessment slot d) = slot + d"
  "confidence (test_assessment slot d) = 8000"
  by (simp_all add: test_assessment_def build_assessment_def with_validity_def
      SignalAssessmentBuilder_new_def validity_width_def)

lemma test_state_fields:
  "config test_state = Some test_config"
  "providers test_state example_wallet = Some test_registry"
  "signals test_state k = None"
  "\<not> is_paused test_config"
  "is_active test_registry"
  "min_validity_slots test_config = 10"
  "max_validity_slots test_config = 1000"
  "min_source_count test_config = 1"
  "min_confidence test_config = 5000"
  "source_count (test_market_context slot) = 3"
  by (simp_all add: test_state_def test_config_def test_registry_def MIN_VALIDITY_SLOTS_def
      MAX_VALIDITY_SLOTS_def MIN_SOURCE_COUNT_def MIN_CONFIDENCE_def test_market_context_def
      build_market_context_def with_slot_def MarketContextBuilder_new_def)

lemma test_low_confidence_assessment_fields:
  "confidence (test_low_confidence_assessment slot) = 1000"
  "validity_width (test_low_confidence_assessment slot) = 100"
  "valid_until_slot (test_low_confidence_assessment slot) = slot + 100"
  by (simp_all add: test_low_confidence_assessment_def build_assessment_def with_validity_def
      with_confidence_def SignalAssessmentBuilder_new_def validity_width_def)


lemma test_paused_state_reached:
  "set_paused test_state example_wallet True = Inr (test_paused_state test_state)"
  by (simp add: set_paused_def test_paused_state_def test_state_def test_config_def)

lemma test_revoked_state_reached:
  "run pos test_state
     [(example_host 1000,
       SubmitSignal example_wallet example_signal_id (test_market_context 1000)
         (test_assessment 1000 100) (test_receipt example_signal_id example_wallet)),
      (example_host 1001, RevokeSignal example_wallet example_wallet example_signal_id)]
   = test_revoked_state"
proof -
  let ?acc = "\<lparr>provider = example_wallet, signal_id = example_signal_id,
      market_context = test_market_context 1000, signal_assessment = test_assessment 1000 100,
      tee_receipt = test_receipt example_signal_id example_wallet, status = Active\<rparr>"
  let ?st1 = "test_state\<lparr>signals := (signals test_state)((example_wallet, example_signal_id) \<mapsto> ?acc),
      providers := (providers test_state)(example_wallet \<mapsto>
        test_registry\<lparr>signal_count := signal_count test_registry + 1\<rparr>)\<rparr>"
  have gate: "check_gate test_state example_wallet = Inr (test_config, test_registry)"
    by (simp add: check_gate_ok test_state_fields)
  have payload: "check_payload (example_host 1000) test_config test_registry example_wallet
      example_signal_id (test_market_context 1000) (test_assessment 1000 100)
      (test_receipt example_signal_id example_wallet) = Inr ()"
    by (rule check_payload_ok)
      (simp_all add: test_state_fields test_assessment_fields test_receipt_verifies,
        simp add: example_host_def)
  have submit: "submit_signal (example_host 1000) test_state example_wallet example_signal_id
      (test_market_context 1000) (test_assessment 1000 100)
      (test_receipt example_signal_id example_wallet) = Inr ?st1"
    by (simp add: submit_signal_after_gate [OF gate test_state_fields(3)] payload)
  have revoke: "revoke_signal ?st1 example_wallet example_wallet example_signal_id
      = Inr test_revoked_state"
    by (simp add: revoke_signal_def test_revoked_state_def test_revoked_account_def
        test_state_def test_registry_def)
  show ?thesis
    by (simp add: submit revoke)
qed


section \<open>Admission policy: validity bounds, confidence gate, expiry\<close>

text \<open>
  C6 as stated fails when an earlier check fails: with \<open>min_validity_slots = 10\<close> and
  \<open>max_validity_slots = 1000\<close>, a submission of width 5 under a paused protocol fails with
  \<open>ProtocolPaused\<close>, not \<open>ValidityPeriodTooShort\<close>, and a submission of width 2000 with
  confidence 1000 fails with \<open>ConfidenceBelowMinimum\<close>, not \<open>ValidityPeriodTooLong\<close>.
\<close>

theorem validity_bound_counterexample:
  "min_validity_slots test_config = 10 \<and> max_validity_slots test_config = 1000
   \<and> validity_width (test_assessment 1000 5) = 5
   \<and> submit_signal (example_host 1000) (test_paused_state test_state) example_wallet
        example_signal_id (test_market_context 1000) (test_assessment 1000 5)
        (test_receipt example_signal_id example_wallet) = Inl ProtocolPaused
   \<and> submit_signal (example_host 1000) (test_paused_state test_state) example_wallet
        example_signal_id (test_market_context 1000) (test_assessment 1000 5)
        (test_receipt example_signal_id example_wallet) \<noteq> Inl ValidityPeriodTooShort
   \<and> validity_width ((test_assessment 1000 2000)\<lparr>confidence := 1000\<rparr>) = 2000
   \<and> submit_signal (example_host 1000) test_state example_wallet
        example_signal_id (test_market_context 1000)
        ((test_assessment 1000 2000)\<lparr>confidence := 1000\<rparr>)
        (test_receipt example_signal_id example_wallet) = Inl ConfidenceBelowMinimum
   \<and> submit_signal (example_host 1000) test_state example_wallet
        example_signal_id (test_market_context 1000)
        ((test_assessment 1000 2000)\<lparr>confidence := 1000\<rparr>)
        (test_receipt example_signal_id example_wallet) \<noteq> Inl ValidityPeriodTooLong"
proof -
  have gate: "check_gate test_state example_wallet = Inr (test_config, test_registry)"
    by (simp add: check_gate_ok test_state_fields)
  have paused: "submit_signal (example_host 1000) (test_paused_state test_state) example_wallet
        example_signal_id (test_market_context 1000) (test_assessment 1000 5)
        (test_receipt example_signal_id example_wallet) = Inl ProtocolPaused"
    by (simp add: submit_signal_def check_gate_def test_paused_state_def)
  have low: "submit_signal (example_host 1000) test_state example_wallet
        example_signal_id (test_market_context 1000)
        ((test_assessment 1000 2000)\<lparr>confidence := 1000\<rparr>)
        (test_receipt example_signal_id example_wallet) = Inl ConfidenceBelowMinimum"
    by (simp add: submit_signal_after_gate [OF gate test_state_fields(3)] check_payload_def
        test_state_fields)
  have wide: "validity_width ((test_assessment 1000 2000)\<lparr>confidence := 1000\<rparr>) = 2000"
    by (simp add: validity_width_def test_assessment_def build_assessment_def with_validity_def)
  show ?thesis
    by (simp add: paused low wide test_state_fields test_assessment_fields)
qed

text \<open>
  C6, amended. With \<open>min_validity_slots = 10\<close> and \<open>max_validity_slots = 1000\<close>: a
  submission of validity width 5 always fails, and fails with \<open>ValidityPeriodTooShort\<close>
  when checks 1 to 5 are satisfied; a submission of width 2000 always fails, and fails with
  \<open>ValidityPeriodTooLong\<close> when checks 1 to 5 are satisfied; a submission of width 100
  succeeds when all other preconditions are satisfied, creating an \<open>Active\<close> account with
  the submitted assessment.
\<close>

theorem validity_bound_enforcement:
  assumes "config st = Some cfg"
    and "min_validity_slots cfg = 10" and "max_validity_slots cfg = 1000"
  shows "(validity_width a = 5 \<longrightarrow>
            (\<exists>e. submit_signal h st caller sid mc a r = Inl e)
          \<and> (\<not> is_paused cfg \<and> providers st caller = Some reg \<and> is_active reg
              \<and> signals st (caller, sid) = None
              \<and> min_source_count cfg \<le> source_count mc
              \<and> min_confidence cfg \<le> confidence a \<longrightarrow>
              submit_signal h st caller sid mc a r = Inl ValidityPeriodTooShort))
       \<and> (validity_width a = 2000 \<longrightarrow>
            (\<exists>e. submit_signal h st caller sid mc a r = Inl e)
          \<and> (\<not> is_paused cfg \<and> providers st caller = Some reg \<and> is_active reg
              \<and> signals st (caller, sid) = None
              \<and> min_source_count cfg \<le> source_count mc
              \<and> min_confidence cfg \<le> confidence a \<longrightarrow>
              submit_signal h st caller sid mc a r = Inl ValidityPeriodTooLong))
       \<and> (validity_width a = 100
            \<and> \<not> is_paused cfg \<and> providers st caller = Some reg \<and> is_active reg
            \<and> signals st (caller, sid) = None
            \<and> min_source_count cfg \<le> source_count mc
            \<and> min_confidence cfg \<le> confidence a
            \<and> current_slot h < valid_until_slot a
            \<and> verify_receipt h r sid caller (allowed_enclaves reg) = Inr () \<longrightarrow>
            (\<exists>st' acc. submit_signal h st caller sid mc a r = Inr st'
                \<and> signals st' (caller, sid) = Some acc \<and> status acc = Active
                \<and> signal_assessment acc = a))"
proof -
  have never: "submit_signal h st caller sid mc a r \<noteq> Inr st'"
    if w: "validity_width a < 10 \<or> 1000 < validity_width a" for st'
  proof
    assume "submit_signal h st caller sid mc a r = Inr st'"
    from submit_signal_Inr [OF this] obtain cfg' reg' where
      "config st = Some cfg'" and "check_payload h cfg' reg' caller sid mc a r = Inr ()"
      by blast
    with assms(1) have "check_payload h cfg reg' caller sid mc a r = Inr ()" by simp
    from check_payload_Inr [OF this] w assms(2,3) show False by auto
  qed
  have fails: "\<exists>e. submit_signal h st caller sid mc a r = Inl e"
    if "validity_width a < 10 \<or> 1000 < validity_width a"
    by (rule submit_signal_not_Inr) (rule never [OF that])
  have after: "submit_signal h st caller sid mc a r =
      (case check_payload h cfg reg caller sid mc a r of
         Inl e \<Rightarrow> Inl e
       | Inr _ \<Rightarrow>
           Inr (st\<lparr>signals := (signals st)((caller, sid) \<mapsto>
                      \<lparr>provider = caller, signal_id = sid, market_context = mc,
                       signal_assessment = a, tee_receipt = r, status = Active\<rparr>),
                   providers := (providers st)(caller \<mapsto>
                      reg\<lparr>signal_count := signal_count reg + 1\<rparr>)\<rparr>))"
    if "\<not> is_paused cfg" and "providers st caller = Some reg" and "is_active reg"
      and "signals st (caller, sid) = None"
    using that assms(1) by (intro submit_signal_after_gate check_gate_ok)
  show ?thesis
  proof (intro conjI impI)
    assume "validity_width a = 5"
    then show "\<exists>e. submit_signal h st caller sid mc a r = Inl e"
      by (intro fails) simp
  next
    assume "validity_width a = 5"
      and "\<not> is_paused cfg \<and> providers st caller = Some reg \<and> is_active reg
              \<and> signals st (caller, sid) = None
              \<and> min_source_count cfg \<le> source_count mc
              \<and> min_confidence cfg \<le> confidence a"
    then show "submit_signal h st caller sid mc a r = Inl ValidityPeriodTooShort"
      using assms(2,3) by (simp add: after check_payload_def)
  next
    assume "validity_width a = 2000"
    then show "\<exists>e. submit_signal h st caller sid mc a r = Inl e"
      by (intro fails) simp
  next
    assume "validity_width a = 2000"
      and "\<not> is_paused cfg \<and> providers st caller = Some reg \<and> is_active reg
              \<and> signals st (caller, sid) = None
              \<and> min_source_count cfg \<le> source_count mc
              \<and> min_confidence cfg \<le> confidence a"
    then show "submit_signal h st caller sid mc a r = Inl ValidityPeriodTooLong"
      using assms(2,3) by (simp add: after check_payload_def)
  next
    assume "validity_width a = 100
            \<and> \<not> is_paused cfg \<and> providers st caller = Some reg \<and> is_active reg
            \<and> signals st (caller, sid) = None
            \<and> min_source_count cfg \<le> source_count mc
            \<and> min_confidence cfg \<le> confidence a
            \<and> current_slot h < valid_until_slot a
            \<and> verify_receipt h r sid caller (allowed_enclaves reg) = Inr ()"
    then show "\<exists>st' acc. submit_signal h st caller sid mc a r = Inr st'
                \<and> signals st' (caller, sid) = Some acc \<and> status acc = Active
                \<and> signal_assessment acc = a"
      using assms(2,3) by (simp add: after check_payload_def)
  qed
qed

text \<open>
  C6, amended, on the state and payloads of \<open>TestSlotValidity\<close> and
  \<open>test_submit_signal_success\<close>, at slot 1000.
\<close>

theorem validity_bound_enforcement_witness:
  "config test_state = Some test_config
   \<and> min_validity_slots test_config = 10 \<and> max_validity_slots test_config = 1000
   \<and> validity_width (test_assessment 1000 5) = 5
   \<and> submit_signal (example_host 1000) test_state example_wallet example_signal_id
        (test_market_context 1000) (test_assessment 1000 5)
        (test_receipt example_signal_id example_wallet) = Inl ValidityPeriodTooShort
   \<and> validity_width (test_assessment 1000 2000) = 2000
   \<and> submit_signal (example_host 1000) test_state example_wallet example_signal_id
        (test_market_context 1000) (test_assessment 1000 2000)
        (test_receipt example_signal_id example_wallet) = Inl ValidityPeriodTooLong
   \<and> validity_width (test_assessment 1000 100) = 100
   \<and> (\<exists>st' acc. submit_signal (example_host 1000) test_state example_wallet example_signal_id
        (test_market_context 1000) (test_assessment 1000 100)
        (test_receipt example_signal_id example_wallet) = Inr st'
        \<and> signals st' (example_wallet, example_signal_id) = Some acc \<and> status acc = Active)"
proof -
  note inst = validity_bound_enforcement [OF test_state_fields(1,6,7),
      where h = "example_host 1000" and caller = example_wallet and sid = example_signal_id
        and mc = "test_market_context 1000" and reg = test_registry
        and r = "test_receipt example_signal_id example_wallet"]
  have slot: "current_slot (example_host 1000) < valid_until_slot (test_assessment 1000 100)"
    by (simp add: example_host_def test_assessment_fields)
  note ok = test_receipt_verifies [of 1000 example_signal_id example_wallet]
  from inst [of "test_assessment 1000 5"] inst [of "test_assessment 1000 2000"]
    inst [of "test_assessment 1000 100"] slot ok
  show ?thesis
    by (simp add: test_state_fields test_assessment_fields) blast
qed

text \<open>
  C7 as stated fails when an earlier check fails: with \<open>min_confidence = 5000\<close> and the
  protocol paused, a submission with confidence 1000 fails with \<open>ProtocolPaused\<close>, not
  with \<open>ConfidenceBelowMinimum\<close>.
\<close>
theorem confidence_gate_counterexample:
  "config (test_paused_state test_state) = Some (test_config\<lparr>is_paused := True\<rparr>)
   \<and> min_confidence (test_config\<lparr>is_paused := True\<rparr>) = 5000
   \<and> confidence (test_low_confidence_assessment 1000) = 1000
   \<and> submit_signal (example_host 1000) (test_paused_state test_state) example_wallet
        example_signal_id (test_market_context 1000) (test_low_confidence_assessment 1000)
        (test_receipt example_signal_id example_wallet) = Inl ProtocolPaused
   \<and> submit_signal (example_host 1000) (test_paused_state test_state) example_wallet
        example_signal_id (test_market_context 1000) (test_low_confidence_assessment 1000)
        (test_receipt example_signal_id example_wallet) \<noteq> Inl ConfidenceBelowMinimum"
  by (simp add: submit_signal_def check_gate_def test_paused_state_def test_state_fields
      test_low_confidence_assessment_fields)

text \<open>
  C7, amended. With \<open>min_confidence = 5000\<close>: a submission with confidence 1000 always
  fails, and fails with \<open>ConfidenceBelowMinimum\<close> when checks 1 to 4 are satisfied; a
  submission with confidence 8000 never fails with \<open>ConfidenceBelowMinimum\<close>, and succeeds
  when all other preconditions are satisfied.
\<close>
theorem confidence_gate:
  assumes "config st = Some cfg" and "min_confidence cfg = 5000"
  shows "(confidence a = 1000 \<longrightarrow>
            (\<exists>e. submit_signal h st caller sid mc a r = Inl e)
          \<and> (\<not> is_paused cfg \<and> providers st caller = Some reg \<and> is_active reg
              \<and> signals st (caller, sid) = None
              \<and> min_source_count cfg \<le> source_count mc \<longrightarrow>
              submit_signal h st caller sid mc a r = Inl ConfidenceBelowMinimum))
       \<and> (confidence a = 8000 \<longrightarrow>
            submit_signal h st caller sid mc a r \<noteq> Inl ConfidenceBelowMinimum
          \<and> (\<not> is_paused cfg \<and> providers st caller = Some reg \<and> is_active reg
              \<and> signals st (caller, sid) = None
              \<and> min_source_count cfg \<le> source_count mc
              \<and> min_validity_slots cfg \<le> validity_width a
              \<and> validity_width a \<le> max_validity_slots cfg
              \<and> current_slot h < valid_until_slot a
              \<and> verify_receipt h r sid caller (allowed_enclaves reg) = Inr () \<longrightarrow>
              (\<exists>st' acc. submit_signal h st caller sid mc a r = Inr st'
                  \<and> signals st' (caller, sid) = Some acc \<and> status acc = Active
                  \<and> signal_assessment acc = a)))"
proof (intro conjI impI)
  assume low: "confidence a = 1000"
  show "\<exists>e. submit_signal h st caller sid mc a r = Inl e"
  proof (rule submit_signal_not_Inr)
    fix st'
    show "submit_signal h st caller sid mc a r \<noteq> Inr st'"
    proof
      assume "submit_signal h st caller sid mc a r = Inr st'"
      from submit_signal_Inr [OF this] obtain cfg' reg' where
        "config st = Some cfg'" and "check_payload h cfg' reg' caller sid mc a r = Inr ()"
        by blast
      with assms have "check_payload h cfg reg' caller sid mc a r = Inr ()" by simp
      from check_payload_Inr [OF this] low assms(2) show False by simp
    qed
  qed
next
  assume low: "confidence a = 1000"
    and pre: "\<not> is_paused cfg \<and> providers st caller = Some reg \<and> is_active reg
              \<and> signals st (caller, sid) = None
              \<and> min_source_count cfg \<le> source_count mc"
  then have gate: "check_gate st caller = Inr (cfg, reg)"
    using assms(1) by (simp add: check_gate_ok)
  from pre have none: "signals st (caller, sid) = None" by simp
  show "submit_signal h st caller sid mc a r = Inl ConfidenceBelowMinimum"
    using pre low assms(2)
    by (simp add: submit_signal_after_gate [OF gate none] check_payload_def)
next
  assume high: "confidence a = 8000"
  show "submit_signal h st caller sid mc a r \<noteq> Inl ConfidenceBelowMinimum"
    using assms high
    by (auto simp: submit_signal_def check_gate_def check_payload_def verify_receipt_def Let_def
        split: option.splits if_splits sum.splits)
next
  assume high: "confidence a = 8000"
    and pre: "\<not> is_paused cfg \<and> providers st caller = Some reg \<and> is_active reg
              \<and> signals st (caller, sid) = None
              \<and> min_source_count cfg \<le> source_count mc
              \<and> min_validity_slots cfg \<le> validity_width a
              \<and> validity_width a \<le> max_validity_slots cfg
              \<and> current_slot h < valid_until_slot a
              \<and> verify_receipt h r sid caller (allowed_enclaves reg) = Inr ()"
  have "check_payload h cfg reg caller sid mc a r = Inr ()"
    using pre high assms(2) by (intro check_payload_ok) simp_all
  with pre assms(1) show "\<exists>st' acc. submit_signal h st caller sid mc a r = Inr st'
                  \<and> signals st' (caller, sid) = Some acc \<and> status acc = Active
                  \<and> signal_assessment acc = a"
    by (intro submit_signal_success) simp_all
qed

text \<open>
  C7, amended, on the state and payloads of \<open>test_submit_low_confidence_fails\<close> and
  \<open>test_submit_signal_success\<close>, at slot 1000.
\<close>
theorem confidence_gate_witness:
  "config test_state = Some test_config \<and> min_confidence test_config = 5000
   \<and> confidence (test_low_confidence_assessment 1000) = 1000
   \<and> submit_signal (example_host 1000) test_state example_wallet example_signal_id
        (test_market_context 1000) (test_low_confidence_assessment 1000)
        (test_receipt example_signal_id example_wallet) = Inl ConfidenceBelowMinimum
   \<and> confidence (test_assessment 1000 100) = 8000
   \<and> (\<exists>st' acc. submit_signal (example_host 1000) test_state example_wallet example_signal_id
        (test_market_context 1000) (test_assessment 1000 100)
        (test_receipt example_signal_id example_wallet) = Inr st'
        \<and> signals st' (example_wallet, example_signal_id) = Some acc \<and> status acc = Active)"
proof -
  note inst = confidence_gate [OF test_state_fields(1,9),
      where h = "example_host 1000" and caller = example_wallet and sid = example_signal_id
        and mc = "test_market_context 1000" and reg = test_registry
        and r = "test_receipt example_signal_id example_wallet"]
  have slot: "current_slot (example_host 1000) < valid_until_slot (test_assessment 1000 100)"
    by (simp add: example_host_def test_assessment_fields)
  note ok = test_receipt_verifies [of 1000 example_signal_id example_wallet]
  from inst [of "test_low_confidence_assessment 1000"] inst [of "test_assessment 1000 100"]
    slot ok
  show ?thesis
    by (simp add: test_state_fields test_assessment_fields
        test_low_confidence_assessment_fields) blast
qed




section \<open>Binding exclusivity\<close>

lemma card_bytes_of_length: "card {xs :: bytes. length xs = n} = 256 ^ n"
proof -
  have "card {xs :: bytes. set xs \<subseteq> UNIV \<and> length xs = n} = card (UNIV :: byte set) ^ n"
    by (rule card_lists_length_eq) simp
  then show ?thesis by (simp add: card_word)
qed

lemma finite_bytes_of_length: "finite {xs :: bytes. length xs = n}"
proof -
  have "finite {xs :: bytes. set xs \<subseteq> UNIV \<and> length xs = n}"
    by (rule finite_lists_length_eq) simp
  then show ?thesis by simp
qed

lemma sha256_collision_exists:
  "\<exists>x y. length x = 64 \<and> length y = 64 \<and> x \<noteq> y \<and> sha256 x = sha256 y"
proof -
  let ?S = "{xs :: bytes. length xs = 64}"
  let ?T = "{ys :: bytes. length ys = 32}"
  have sub: "sha256 ` ?S \<subseteq> ?T"
    by (auto simp: length_sha256)
  have "card (sha256 ` ?S) \<le> card ?T"
    by (rule card_mono [OF finite_bytes_of_length sub])
  also have "\<dots> < card ?S"
    by (simp add: card_bytes_of_length)
  finally have "\<not> inj_on sha256 ?S"
    by (rule pigeonhole)
  then show ?thesis
    by (auto simp: inj_on_def)
qed

text \<open>
  The binding hash maps the pairs of 32-byte values, 64 bytes in all, to 32-byte digests,
  so some two distinct pairs have the same binding hash. The counting names no such pair
  and says nothing of pairs that differ in one component only.
\<close>

lemma binding_hash_not_injective:
  "\<not> (\<forall>A X B Y. length A = 32 \<and> length X = 32 \<and> length B = 32 \<and> length Y = 32
          \<and> (A, X) \<noteq> (B, Y)
        \<longrightarrow> compute_binding_hash A X \<noteq> compute_binding_hash B Y)"
proof
  assume inj: "\<forall>A X B Y. length A = 32 \<and> length X = 32 \<and> length B = 32 \<and> length Y = 32
          \<and> (A, X) \<noteq> (B, Y)
        \<longrightarrow> compute_binding_hash A X \<noteq> compute_binding_hash B Y"
  from sha256_collision_exists obtain x y :: bytes where
    lx: "length x = 64" and ly: "length y = 64" and ne: "x \<noteq> y" and eq: "sha256 x = sha256 y"
    by blast
  have x: "take 32 x @ drop 32 x = x" and y: "take 32 y @ drop 32 y = y"
    by simp_all
  have "(take 32 x, drop 32 x) \<noteq> (take 32 y, drop 32 y)"
    using ne x y by (metis prod.inject)
  moreover have "length (take 32 x) = 32" "length (drop 32 x) = 32"
    "length (take 32 y) = 32" "length (drop 32 y) = 32"
    using lx ly by simp_all
  ultimately have "compute_binding_hash (take 32 x) (drop 32 x)
      \<noteq> compute_binding_hash (take 32 y) (drop 32 y)"
    using inj by blast
  then show False
    using eq by (simp add: compute_binding_hash_def)
qed

lemma builder_report_data_is_onchain_layout:
  "compute_report_data sid p = build_report_data (compute_binding_hash sid p)"
  by (simp add: compute_report_data_def build_report_data_def compute_binding_hash_def Let_def)

lemma report_data_matches_built:
  "report_data r = compute_report_data A X \<Longrightarrow>
     report_data_matches r e = (e = sha256 (A @ X))"
  by (auto simp: report_data_matches_def compute_report_data_def Let_def length_sha256)

text \<open>
  A receipt whose report data was produced for \<open>(A, X)\<close> passes the report-data check
  under \<open>(B, Y)\<close> exactly when the two binding hashes are equal; when its enclave is
  allowed, verification under \<open>(B, Y)\<close> fails with \<open>ReportDataMismatch\<close> exactly when
  they differ. Distinct pairs of signal ids of equal length and providers have distinct
  hash inputs. Whether the digests of two distinct inputs differ is a property of SHA-256
  that is proved here for evaluated inputs only.
\<close>

lemma report_data_check_fails_iff_hashes_differ:
  assumes "report_data r = compute_report_data A X"
  shows "report_data_matches r (compute_binding_hash B Y)
           = (compute_binding_hash B Y = compute_binding_hash A X)
       \<and> (mr_enclave r \<in> set allowed \<longrightarrow>
            (verify_receipt h r B Y allowed = Inl ReportDataMismatch)
              = (compute_binding_hash B Y \<noteq> compute_binding_hash A X))
       \<and> (length A = length B \<longrightarrow> (A @ X = B @ Y) = (A = B \<and> X = Y))"
  using assms
  by (auto simp: report_data_matches_built verify_receipt_def compute_binding_hash_def Let_def)

lemma example_binding_hashes_differ:
  "compute_binding_hash example_other_signal_id example_wallet
     \<noteq> compute_binding_hash example_signal_id example_wallet"
  by (simp add: compute_binding_hash_def example_signal_id_def example_other_signal_id_def
      example_wallet_def sha256_example_binding sha256_other_binding)

text \<open>
  The receipt the test builder produces for the example signal id and wallet, verified
  under another signal id of the same wallet: the two binding hashes differ and
  verification fails with \<open>ReportDataMismatch\<close>.
\<close>

lemma example_receipt_rejected_under_other_signal_id:
  "report_data (test_receipt example_signal_id example_wallet)
     = compute_report_data example_signal_id example_wallet
   \<and> mr_enclave (test_receipt example_signal_id example_wallet) \<in> set [test_mr_enclave]
   \<and> length example_signal_id = length example_other_signal_id
   \<and> example_signal_id @ example_wallet \<noteq> example_other_signal_id @ example_wallet
   \<and> compute_binding_hash example_other_signal_id example_wallet
        \<noteq> compute_binding_hash example_signal_id example_wallet
   \<and> verify_receipt (example_host 1000) (test_receipt example_signal_id example_wallet)
         example_other_signal_id example_wallet [test_mr_enclave] = Inl ReportDataMismatch"
proof -
  have rd: "report_data (test_receipt example_signal_id example_wallet)
     = compute_report_data example_signal_id example_wallet"
    by (simp add: test_receipt_def build_receipt_def Let_def)
  have enc: "mr_enclave (test_receipt example_signal_id example_wallet) \<in> set [test_mr_enclave]"
    by (simp add: test_receipt_def build_receipt_def Let_def with_enclave_def)
  have len: "length example_signal_id = length example_other_signal_id"
    and ne: "example_signal_id \<noteq> example_other_signal_id"
    by (simp_all add: example_signal_id_def example_other_signal_id_def)
  from report_data_check_fails_iff_hashes_differ [OF rd, where B = example_other_signal_id and Y = example_wallet
      and allowed = "[test_mr_enclave]" and h = "example_host 1000"] rd enc len ne
    example_binding_hashes_differ
  show ?thesis by simp
qed

section \<open>The checks of \<open>update_signal\<close>\<close>

lemma first_error_append:
  "first_error (xs @ ys) = (case first_error xs of Some e \<Rightarrow> Some e | None \<Rightarrow> first_error ys)"
  by (induction xs rule: first_error.induct) simp_all

lemma first_error_None_iff: "first_error cs = None \<longleftrightarrow> (\<forall>c \<in> set cs. c = None)"
  by (induction cs rule: first_error.induct) simp_all


lemma first_error_others_pass:
  assumes "first_error cs = None"
  shows "first_error (take n cs @ [c] @ drop n cs) = c"
proof -
  from assms have all: "\<forall>x \<in> set cs. x = None"
    by (simp add: first_error_None_iff)
  have "\<forall>x \<in> set (take n cs). x = None" and "\<forall>x \<in> set (drop n cs). x = None"
    using all by (auto dest: in_set_takeD in_set_dropD)
  then have "first_error (take n cs) = None" and "first_error (drop n cs) = None"
    by (simp_all add: first_error_None_iff)
  then show ?thesis
    by (cases c) (simp_all add: first_error_append)
qed

lemma payload_checks_check_payload:
  "first_error (payload_checks h cfg reg caller sid mc a r)
     = (case check_payload h cfg reg caller sid mc a r of Inl e \<Rightarrow> Some e | Inr _ \<Rightarrow> None)"
  by (simp add: payload_checks_def check_payload_def split: sum.splits)

lemma update_checks_pass:
  assumes "config st = Some cfg" and "\<not> is_paused cfg"
    and "providers st caller = Some reg" and "is_active reg"
    and "signals st (owner, sid) = Some acc" and "provider acc = caller"
    and "check_payload h cfg reg caller sid mc a r = Inr ()"
  shows "first_error (update_checks h st caller owner sid mc a r) = None"
  using assms by (simp add: update_checks_def payload_checks_check_payload)


text \<open>
  The update of \<open>test_full_signal_lifecycle\<close> succeeds wherever the status check stands:
  an update that passes the other checks on an \<open>Active\<close> record replaces the payload.
\<close>

lemma update_signal_success:
  assumes "first_error (update_checks h st caller owner sid mc a r) = None"
    and "signals st (owner, sid) = Some acc" and "status acc = Active"
  shows "update_signal pos h st caller owner sid mc a r
           = Inr (st\<lparr>signals := (signals st)((owner, sid) \<mapsto>
                  acc\<lparr>market_context := mc, signal_assessment := a, tee_receipt := r\<rparr>)\<rparr>)"
proof -
  have "status_check st owner sid = None"
    using assms(2,3) by (simp add: status_check_def)
  with first_error_others_pass [OF assms(1), of pos "status_check st owner sid"] assms(2)
  show ?thesis
    by (simp add: update_signal_def Let_def)
qed

lemma test_update_payload_ok:
  "check_payload (example_host 1010) test_config (test_registry\<lparr>signal_count := 1\<rparr>)
     example_wallet example_signal_id (test_market_context 1010) (test_updated_assessment 1010)
     (test_receipt example_signal_id example_wallet) = Inr ()"
proof (rule check_payload_ok)
  show "verify_receipt (example_host 1010) (test_receipt example_signal_id example_wallet)
      example_signal_id example_wallet (allowed_enclaves (test_registry\<lparr>signal_count := 1\<rparr>))
      = Inr ()"
    using test_receipt_verifies [of 1010 example_signal_id example_wallet] by simp
qed (simp_all add: test_state_fields test_updated_assessment_def build_assessment_def
    with_validity_def with_confidence_def SignalAssessmentBuilder_new_def validity_width_def
    example_host_def)

lemma test_update_succeeds:
  "\<exists>st' acc. update_signal pos (example_host 1010) test_active_state example_wallet
       example_wallet example_signal_id (test_market_context 1010)
       (test_updated_assessment 1010) (test_receipt example_signal_id example_wallet) = Inr st'
     \<and> signals st' (example_wallet, example_signal_id) = Some acc
     \<and> confidence (signal_assessment acc) = 9000 \<and> status acc = Active"
proof -
  note payload = test_update_payload_ok
  have pass: "first_error (update_checks (example_host 1010) test_active_state example_wallet
      example_wallet example_signal_id (test_market_context 1010) (test_updated_assessment 1010)
      (test_receipt example_signal_id example_wallet)) = None"
  proof (rule update_checks_pass [OF _ _ _ _ _ _ payload])
    show "config test_active_state = Some test_config"
      and "providers test_active_state example_wallet = Some (test_registry\<lparr>signal_count := 1\<rparr>)"
      and "signals test_active_state (example_wallet, example_signal_id)
        = Some (test_revoked_account\<lparr>status := Active\<rparr>)"
      by (simp_all add: test_active_state_def)
    show "\<not> is_paused test_config" and "is_active (test_registry\<lparr>signal_count := 1\<rparr>)"
      and "provider (test_revoked_account\<lparr>status := Active\<rparr>) = example_wallet"
      by (simp_all add: test_state_fields test_registry_def test_revoked_account_def)
  qed
  have rec: "signals test_active_state (example_wallet, example_signal_id)
      = Some (test_revoked_account\<lparr>status := Active\<rparr>)"
    by (simp add: test_active_state_def)
  have conf: "confidence (test_updated_assessment 1010) = 9000"
    by (simp add: test_updated_assessment_def build_assessment_def with_confidence_def)
  show ?thesis
    by (simp add: update_signal_success [OF pass rec] conf)
qed

section \<open>Revocation is terminal\<close>






text \<open>
  The error of \<open>update_signal\<close> on a revoked record under a paused protocol depends on
  the place of the status check: \<open>InvalidUpdate\<close> when it is first, \<open>ProtocolPaused\<close>
  when it follows the pause check.
\<close>

lemma update_error_depends_on_place:
  "update_signal 0 (example_host 1010) (test_paused_state test_revoked_state) example_wallet
     example_wallet example_signal_id (test_market_context 1010) (test_updated_assessment 1010)
     (test_receipt example_signal_id example_wallet) = Inl InvalidUpdate
   \<and> update_signal 1 (example_host 1010) (test_paused_state test_revoked_state) example_wallet
     example_wallet example_signal_id (test_market_context 1010) (test_updated_assessment 1010)
     (test_receipt example_signal_id example_wallet) = Inl ProtocolPaused"
  by (simp add: update_signal_def update_checks_def status_check_def Let_def
      test_paused_state_def test_revoked_state_def test_revoked_account_def)




end
